theory Spec2Isabelle
  imports Main "HOL-Library.Word" "HOL-Library.Multiset"
begin

section \<open>Runtime data: pointers, interface values, processors, the scheduler state\<close>

text \<open>
  Pointers of the runtime (\<^verbatim>\<open>*g\<close>, \<^verbatim>\<open>*p\<close>, \<^verbatim>\<open>*m\<close>, \<^verbatim>\<open>guintptr\<close>) are addresses;
  address 0 is the nil pointer, as in \<^verbatim>\<open>oldnext != 0\<close> of \<^verbatim>\<open>QueueTask\<close>.
\<close>

type_synonym gptr = nat
type_synonym pptr = nat
type_synonym mptr = nat

text \<open>
  The methods of \<^verbatim>\<open>Scheduler\<close> take and return \<^verbatim>\<open>interface{}\<close>. An interface value is
  either the nil interface or a pointer boxed with its dynamic type. A boxed nil pointer
  (\<open>PtrG 0\<close>) is not the nil interface: Go's \<^verbatim>\<open>x != nil\<close> on an interface is true for it.
\<close>

datatype iface = NilIface | PtrG gptr | PtrP pptr | PtrM mptr

datatype fatal =
    TypeAssertion    \<comment> \<open>\<^verbatim>\<open>x.(*T)\<close> on an interface of another dynamic type, or nil\<close>
  | NilDereference   \<comment> \<open>field access through a nil \<^verbatim>\<open>*p\<close>\<close>
  | LockNotHeld      \<comment> \<open>a global-queue operation outside the critical section\<close>
  | SelfDeadlock     \<comment> \<open>\<^verbatim>\<open>lock(&sched.lock)\<close> by the holder; the mutex is not reentrant\<close>
  | StatusMismatch   \<comment> \<open>\<^verbatim>\<open>casgstatus\<close> on a goroutine that is not in the old status\<close>
  | RunqOverflow     \<comment> \<open>a stolen batch that does not fit the thief's ring\<close>

datatype gstat = Gidle | Grunnable | Grunning | Gwaiting | Gdead

text \<open>
  Modelled from the spec: the declaration of struct \<^verbatim>\<open>p\<close> is not among the sources. A
  processor owns a monotonically increasing tick counter, a single run-next slot and a
  fixed-capacity ring of task handles. The methods read them as \<^verbatim>\<open>pp.schedtick\<close> (an
  unsigned 32-bit counter in the runtime: it wraps), \<^verbatim>\<open>pp.runnext\<close> (a \<^verbatim>\<open>guintptr\<close>, 0 when
  the slot is empty) and \<^verbatim>\<open>pp.runq\<close>; the ring is kept as the list of its entries, oldest
  first.
\<close>

record p =
  schedtick :: "32 word"
  runnext :: gptr
  runq :: "gptr list"

text \<open>
  Modelled from the spec: \<^verbatim>\<open>len(pp.runq)\<close> is the capacity of the ring, fixed by the array
  type of the field, whose declaration is not among the sources. The spec gives no number;
  the runtime's ring has 256 entries.
\<close>

definition runq_len :: nat where
  "runq_len = 256"

text \<open>
  The state the methods read and write: the processors (a store from addresses to
  \<^verbatim>\<open>p\<close>), the global \<^verbatim>\<open>sched\<close> (its run queue and its lock), the processor of the
  calling thread (\<^verbatim>\<open>getg().m.p\<close>), the goroutine statuses, and what the external probes of
  \<^verbatim>\<open>NextTask\<close> see: the tracer, the garbage collector and the clock.
\<close>

record world =
  procs :: "pptr \<Rightarrow> p"
  sched_runq :: "gptr list"
  sched_lock :: bool
  curp :: pptr
  gstatus :: "gptr \<Rightarrow> gstat"
  trace_on :: bool          \<comment> \<open>\<^verbatim>\<open>traceEnabled() || traceShuttingDown()\<close>\<close>
  trace_reader :: gptr      \<comment> \<open>the goroutine \<^verbatim>\<open>traceReader()\<close> hands out, 0 for none\<close>
  trace_ok :: bool          \<comment> \<open>\<^verbatim>\<open>traceAcquire().ok()\<close>\<close>
  trace_log :: "gptr list"  \<comment> \<open>the \<^verbatim>\<open>GoUnpark\<close> events written\<close>
  gcBlackenEnabled :: "32 word"
  gc_worker :: gptr         \<comment> \<open>the worker \<^verbatim>\<open>findRunnableGCWorker\<close> hands out, 0 for none\<close>
  clock :: "64 word"        \<comment> \<open>\<^verbatim>\<open>nanotime()\<close>\<close>
  steal_order :: "pptr list" \<comment> \<open>the order in which \<^verbatim>\<open>stealWork\<close> visits victims\<close>

type_synonym 'a res = "fatal + 'a"

definition bindR :: "'a res \<Rightarrow> ('a \<Rightarrow> 'b res) \<Rightarrow> 'b res" where
  "bindR r f = (case r of Inl e \<Rightarrow> Inl e | Inr x \<Rightarrow> f x)"

text \<open>The type assertions \<^verbatim>\<open>x.(*p)\<close>, \<^verbatim>\<open>x.(*m)\<close>, \<^verbatim>\<open>x.(*g)\<close>: they panic on any other value.\<close>

definition assert_p :: "iface \<Rightarrow> pptr res" where
  "assert_p x = (case x of PtrP a \<Rightarrow> Inr a | _ \<Rightarrow> Inl TypeAssertion)"

definition assert_m :: "iface \<Rightarrow> mptr res" where
  "assert_m x = (case x of PtrM a \<Rightarrow> Inr a | _ \<Rightarrow> Inl TypeAssertion)"

definition assert_g :: "iface \<Rightarrow> gptr res" where
  "assert_g x = (case x of PtrG a \<Rightarrow> Inr a | _ \<Rightarrow> Inl TypeAssertion)"

text \<open>\<^verbatim>\<open>sched.runq.empty()\<close>: the emptiness check read without the lock.\<close>

definition runq_empty :: "world \<Rightarrow> bool" where
  "runq_empty s = (sched_runq s = [])"

section \<open>The fairness checks\<close>

text \<open>
  \<^verbatim>\<open>pp.schedtick%N == 0 && !sched.runq.empty()\<close>, after the assertion \<^verbatim>\<open>ppInterface.(*p)\<close>;
  reading \<^verbatim>\<open>pp.schedtick\<close> through a nil \<^verbatim>\<open>pp\<close> panics.
\<close>

definition schedulerImpl_CheckGlobalQueue :: "iface \<Rightarrow> world \<Rightarrow> bool res" where
  "schedulerImpl_CheckGlobalQueue ppInterface s =
     bindR (assert_p ppInterface) (\<lambda>pp.
       if pp = 0 then Inl NilDereference
       else Inr (schedtick (procs s pp) mod 61 = 0 \<and> \<not> runq_empty s))"

definition priorityScheduler_CheckGlobalQueue :: "iface \<Rightarrow> world \<Rightarrow> bool res" where
  "priorityScheduler_CheckGlobalQueue ppInterface s =
     bindR (assert_p ppInterface) (\<lambda>pp.
       if pp = 0 then Inl NilDereference
       else Inr (schedtick (procs s pp) mod 31 = 0 \<and> \<not> runq_empty s))"

definition fifoScheduler_CheckGlobalQueue :: "iface \<Rightarrow> world \<Rightarrow> bool res" where
  "fifoScheduler_CheckGlobalQueue ppInterface s =
     bindR (assert_p ppInterface) (\<lambda>pp.
       if pp = 0 then Inl NilDereference
       else Inr (schedtick (procs s pp) mod 127 = 0 \<and> \<not> runq_empty s))"

definition workStealingScheduler_CheckGlobalQueue :: "iface \<Rightarrow> world \<Rightarrow> bool res" where
  "workStealingScheduler_CheckGlobalQueue ppInterface s =
     bindR (assert_p ppInterface) (\<lambda>pp.
       if pp = 0 then Inl NilDereference
       else Inr (schedtick (procs s pp) mod 101 = 0 \<and> \<not> runq_empty s))"

text \<open>The processor \<open>pp\<close> after \<open>k\<close> more increments of its \<^verbatim>\<open>schedtick\<close> (a \<^verbatim>\<open>uint32\<close>: it wraps).\<close>

definition tick_by :: "nat \<Rightarrow> pptr \<Rightarrow> world \<Rightarrow> world" where
  "tick_by k pp s =
     s\<lparr>procs := (procs s)(pp := (procs s pp)\<lparr>schedtick := schedtick (procs s pp) + of_nat k\<rparr>)\<rparr>"

section \<open>The runtime's queue primitives\<close>

text \<open>
  Modelled from the spec: \<^verbatim>\<open>lock\<close>, called as \<^verbatim>\<open>lock(&sched.lock)\<close>, is not among the
  sources. The global queue is guarded by a single exclusive lock. The lock is not
  reentrant: a thread that takes it while holding it never returns.
\<close>

definition lock :: "world \<Rightarrow> world res" where
  "lock s = (if sched_lock s then Inl SelfDeadlock else Inr (s\<lparr>sched_lock := True\<rparr>))"

text \<open>
  Modelled from the spec: \<^verbatim>\<open>unlock\<close>, called as \<^verbatim>\<open>unlock(&sched.lock)\<close>, is not among the
  sources. It ends the critical section; releasing a free lock is fatal.
\<close>

definition unlock :: "world \<Rightarrow> world res" where
  "unlock s = (if sched_lock s then Inr (s\<lparr>sched_lock := False\<rparr>) else Inl LockNotHeld)"

text \<open>
  Modelled from the spec: \<^verbatim>\<open>globrunqput\<close>, the global queue's \<^verbatim>\<open>push(task)\<close>, is not among
  the sources. The global queue is an unbounded FIFO sequence; every operation on it
  belongs to the critical section of \<^verbatim>\<open>sched.lock\<close>.
\<close>

definition globrunqput :: "gptr \<Rightarrow> world \<Rightarrow> world res" where
  "globrunqput gp s =
     (if sched_lock s then Inr (s\<lparr>sched_runq := sched_runq s @ [gp]\<rparr>) else Inl LockNotHeld)"

text \<open>
  Modelled from the spec: \<^verbatim>\<open>globrunqputbatch\<close>, the global queue's \<^verbatim>\<open>pushBatch(tasks)\<close>, is
  not among the sources.
\<close>

definition globrunqputbatch :: "gptr list \<Rightarrow> world \<Rightarrow> world res" where
  "globrunqputbatch batch s =
     (if sched_lock s then Inr (s\<lparr>sched_runq := sched_runq s @ batch\<rparr>) else Inl LockNotHeld)"

text \<open>
  Modelled from the spec: \<^verbatim>\<open>globrunqgetbatch\<close>, the global queue's \<^verbatim>\<open>popBatch(maxN)\<close>, is
  not among the sources. It takes up to \<open>n\<close> tasks from the head of the queue in one
  critical section: the first is the task to run, the others are the refill batch. On an
  empty queue it returns the nil pointer and an empty batch.
\<close>

definition globrunqgetbatch :: "nat \<Rightarrow> world \<Rightarrow> ((gptr \<times> gptr list) \<times> world) res" where
  "globrunqgetbatch n s =
     (if \<not> sched_lock s then Inl LockNotHeld
      else case sched_runq s of
          [] \<Rightarrow> Inr ((0, []), s)
        | gp # rest \<Rightarrow> Inr ((gp, take (n - 1) rest), s\<lparr>sched_runq := drop (n - 1) rest\<rparr>))"

text \<open>
  Modelled from the spec: the ring part of the local queue's \<^verbatim>\<open>push\<close> is not among the
  sources. The task is appended to the ring; if the ring is full, its oldest half and the
  new task move to the global queue as one batch.
\<close>

definition runq_append :: "pptr \<Rightarrow> gptr \<Rightarrow> world \<Rightarrow> world res" where
  "runq_append pp gp s =
     (let r = runq (procs s pp) in
      if length r < runq_len
      then Inr (s\<lparr>procs := (procs s)(pp := (procs s pp)\<lparr>runq := r @ [gp]\<rparr>)\<rparr>)
      else bindR (lock s) (\<lambda>s1.
           bindR (globrunqputbatch (take (length r div 2) r @ [gp])
                    (s1\<lparr>procs := (procs s1)(pp := (procs s1 pp)\<lparr>runq := drop (length r div 2) r\<rparr>)\<rparr>))
             unlock))"

text \<open>
  Modelled from the spec: \<^verbatim>\<open>runqput\<close>, the local queue's \<^verbatim>\<open>push(task, runNext)\<close>, is not
  among the sources. With \<open>next\<close> the task is swapped into the run-next slot and a task
  displaced from the slot is pushed onto the ring; without it the task is pushed onto the
  ring.
\<close>

definition runqput :: "pptr \<Rightarrow> gptr \<Rightarrow> bool \<Rightarrow> world \<Rightarrow> world res" where
  "runqput pp gp next s =
     (if next
      then (let oldnext = runnext (procs s pp);
                s1 = s\<lparr>procs := (procs s)(pp := (procs s pp)\<lparr>runnext := gp\<rparr>)\<rparr>
            in if oldnext = 0 then Inr s1 else runq_append pp oldnext s1)
      else runq_append pp gp s)"

text \<open>
  Modelled from the spec: \<^verbatim>\<open>runqget\<close>, the local queue's \<^verbatim>\<open>popOwn()\<close>, is not among the
  sources. It returns the run-next slot if occupied, else the newest ring entry, else the
  nil pointer. The spec does not say what the second result is; the runtime lets only the
  task of the run-next slot inherit the time slice.
\<close>

definition runqget :: "pptr \<Rightarrow> world \<Rightarrow> ((gptr \<times> bool) \<times> world) res" where
  "runqget pp s =
     (if pp = 0 then Inl NilDereference
      else let pr = procs s pp in
        if runnext pr \<noteq> 0
        then Inr ((runnext pr, True), s\<lparr>procs := (procs s)(pp := pr\<lparr>runnext := 0\<rparr>)\<rparr>)
        else if runq pr = [] then Inr ((0, False), s)
        else Inr ((last (runq pr), False),
                  s\<lparr>procs := (procs s)(pp := pr\<lparr>runq := butlast (runq pr)\<rparr>)\<rparr>))"

text \<open>
  Modelled from the spec: \<^verbatim>\<open>runqputbatch\<close> is not among the sources. It refills the ring
  from the batch while there is room and leaves in the batch what does not fit.
\<close>

definition runqputbatch :: "pptr \<Rightarrow> gptr list \<Rightarrow> world \<Rightarrow> (gptr list \<times> world) res" where
  "runqputbatch pp q s =
     (if q = [] then Inr ([], s)
      else if pp = 0 then Inl NilDereference
      else let r = runq (procs s pp); room = runq_len - length r in
        Inr (drop room q, s\<lparr>procs := (procs s)(pp := (procs s pp)\<lparr>runq := r @ take room q\<rparr>)\<rparr>))"

text \<open>
  Modelled from the spec: \<^verbatim>\<open>stealWork\<close> and its \<^verbatim>\<open>stealHalf\<close> are not among the sources.
  The thief is the processor of the calling thread. It visits the victims in the given
  order and skips itself and every victim with fewer than two ring entries; from the
  first other one it removes the oldest \<open>\<lceil>k/2\<rceil>\<close> ring entries, never the run-next slot,
  runs one of them and puts the others into its own ring. The spec does not say which one
  runs; the runtime runs the last of the stolen ones.
\<close>

fun steal_from :: "pptr list \<Rightarrow> pptr \<Rightarrow> world \<Rightarrow> (gptr \<times> world) res" where
  "steal_from [] me s = Inr (0, s)"
| "steal_from (v # vs) me s =
     (let r = runq (procs s v) in
      if v = me \<or> length r < 2 then steal_from vs me s
      else let n = (length r + 1) div 2; stolen = take n r; mine = runq (procs s me) in
        if runq_len < length mine + (n - 1) then Inl RunqOverflow
        else Inr (last stolen,
                  s\<lparr>procs := (procs s)(v := (procs s v)\<lparr>runq := drop n r\<rparr>,
                                       me := (procs s me)\<lparr>runq := mine @ butlast stolen\<rparr>)\<rparr>))"

text \<open>
  Modelled from the spec: \<^verbatim>\<open>stealWork(now)\<close> is not among the sources. It reports the
  stolen task, which does not inherit the time slice, and the time it was given; polling
  timers for a deadline is optional in the spec and left out, and no new work is reported.
\<close>

definition stealWork ::
  "64 word \<Rightarrow> world \<Rightarrow> ((gptr \<times> bool \<times> 64 word \<times> 64 word \<times> bool) \<times> world) res" where
  "stealWork now s =
     bindR (steal_from (steal_order s) (curp s) s) (\<lambda>(gp, s').
       Inr ((gp, False, now, 0, False), s'))"

text \<open>
  Modelled from the spec: \<^verbatim>\<open>traceReader()\<close> is not among the sources. It is an
  injected-work probe: it hands out the waiting trace reader, if there is one, once.
\<close>

definition traceReader :: "world \<Rightarrow> gptr \<times> world" where
  "traceReader s = (trace_reader s, s\<lparr>trace_reader := 0\<rparr>)"

text \<open>
  Modelled from the spec: \<^verbatim>\<open>gcController.findRunnableGCWorker(pp, now)\<close> is not among the
  sources. It is an injected-work probe: it hands out a special worker task, if there is
  one, once.
\<close>

definition findRunnableGCWorker :: "pptr \<Rightarrow> 64 word \<Rightarrow> world \<Rightarrow> gptr \<times> world" where
  "findRunnableGCWorker pp now s = (gc_worker s, s\<lparr>gc_worker := 0\<rparr>)"

text \<open>
  Modelled from the spec: \<^verbatim>\<open>casgstatus(gp, old, new)\<close> is not among the sources. It is the
  task-state transition of the external collaborator: it moves a task from one state to
  another, and does not return for a task that is in a third state.
\<close>

definition casgstatus :: "gptr \<Rightarrow> gstat \<Rightarrow> gstat \<Rightarrow> world \<Rightarrow> world res" where
  "casgstatus gp oldval newval s =
     (if gstatus s gp = oldval then Inr (s\<lparr>gstatus := (gstatus s)(gp := newval)\<rparr>)
      else Inl StatusMismatch)"

text \<open>
  Modelled from the spec: \<^verbatim>\<open>nanotime()\<close> is not among the sources. It reads the monotonic
  clock.
\<close>

definition nanotime :: "world \<Rightarrow> 64 word" where
  "nanotime s = clock s"

text \<open>
  Modelled from the spec: the method \<^verbatim>\<open>cas\<close> of \<^verbatim>\<open>guintptr\<close>, called as
  \<^verbatim>\<open>pp.runnext.cas(old, new)\<close>, is not among the sources. It is the atomic swap of the
  run-next slot: it writes the new value and reports success if the slot holds the old
  one, and changes nothing otherwise.
\<close>

definition runnext_cas :: "pptr \<Rightarrow> gptr \<Rightarrow> gptr \<Rightarrow> world \<Rightarrow> bool \<times> world" where
  "runnext_cas pp oldval newval s =
     (if runnext (procs s pp) = oldval
      then (True, s\<lparr>procs := (procs s)(pp := (procs s pp)\<lparr>runnext := newval\<rparr>)\<rparr>)
      else (False, s))"

section \<open>The default scheduler \<^verbatim>\<open>schedulerImpl\<close>\<close>

text \<open>
  \<^verbatim>\<open>StealWork\<close> uses neither of its interface arguments: it calls \<^verbatim>\<open>stealWork(now)\<close> and
  returns its results, the \<^verbatim>\<open>*g\<close> boxed into the \<^verbatim>\<open>interface{}\<close> result.
\<close>

definition schedulerImpl_StealWork ::
  "iface \<Rightarrow> iface \<Rightarrow> 64 word \<Rightarrow> world
     \<Rightarrow> ((iface \<times> bool \<times> 64 word \<times> 64 word \<times> bool) \<times> world) res" where
  "schedulerImpl_StealWork ppInterface mpInterface now s =
     bindR (stealWork now s) (\<lambda>((gp, inh, tn, pu, nw), s').
       Inr ((PtrG gp, inh, tn, pu, nw), s'))"

text \<open>
  \<^verbatim>\<open>GetFromLocalQueue\<close> is \<^verbatim>\<open>return runqget(pp)\<close>: the \<^verbatim>\<open>*g\<close> of \<^verbatim>\<open>runqget\<close> is converted to
  the \<^verbatim>\<open>interface{}\<close> result, so the result is a boxed pointer also when the pointer is nil.
\<close>

definition schedulerImpl_GetFromLocalQueue ::
  "iface \<Rightarrow> world \<Rightarrow> ((iface \<times> bool) \<times> world) res" where
  "schedulerImpl_GetFromLocalQueue ppInterface s =
     bindR (assert_p ppInterface) (\<lambda>pp.
     bindR (runqget pp s) (\<lambda>((gp, inheritTime), s').
       Inr ((PtrG gp, inheritTime), s')))"

text \<open>The loop \<^verbatim>\<open>for !q.empty() { g := q.pop(); globrunqput(g) }\<close>.\<close>

fun globrunqput_each :: "gptr list \<Rightarrow> world \<Rightarrow> world res" where
  "globrunqput_each [] s = Inr s"
| "globrunqput_each (g # q) s = bindR (globrunqput g s) (globrunqput_each q)"

text \<open>
  \<^verbatim>\<open>GetFromGlobalQueue\<close>: \<^verbatim>\<open>return nil\<close> on the empty hint, else a batch pop of at most
  \<^verbatim>\<open>int32(len(pp.runq)) / 2\<close> under the lock, the refill of the local ring, and the push of
  what did not fit back to the global queue under the lock again. \<^verbatim>\<open>return gp\<close> boxes the
  \<^verbatim>\<open>*g\<close>.
\<close>

definition schedulerImpl_GetFromGlobalQueue :: "iface \<Rightarrow> world \<Rightarrow> (iface \<times> world) res" where
  "schedulerImpl_GetFromGlobalQueue ppInterface s =
     bindR (assert_p ppInterface) (\<lambda>pp.
       if runq_empty s then Inr (NilIface, s)
       else
         bindR (lock s) (\<lambda>s1.
         bindR (globrunqgetbatch (runq_len div 2) s1) (\<lambda>((gp, q), s2).
         bindR (unlock s2) (\<lambda>s3.
           if gp \<noteq> 0 then
             bindR (runqputbatch pp q s3) (\<lambda>(q', s4).
               if q' \<noteq> [] then
                 bindR (lock s4) (\<lambda>s5.
                 bindR (globrunqput_each q' s5) (\<lambda>s6.
                 bindR (unlock s6) (\<lambda>s7. Inr (PtrG gp, s7))))
               else Inr (PtrG gp, s4))
           else Inr (PtrG gp, s3)))))"

text \<open>
  \<^verbatim>\<open>QueueTask\<close>: \<^verbatim>\<open>pp\<close> stays nil unless \<^verbatim>\<open>ppInterface != nil\<close>; the local branch needs
  \<^verbatim>\<open>local && pp != nil\<close>. With \<^verbatim>\<open>next\<close> the task is written into \<^verbatim>\<open>runnext\<close> by a
  compare-and-swap against the value just read; a failed swap sends the task to the ring,
  a successful one sends the displaced task there, if there was one.
\<close>

definition schedulerImpl_QueueTask :: "iface \<Rightarrow> iface \<Rightarrow> bool \<Rightarrow> bool \<Rightarrow> world \<Rightarrow> world res" where
  "schedulerImpl_QueueTask gpInterface ppInterface next local s =
     bindR (assert_g gpInterface) (\<lambda>gp.
     bindR (if ppInterface \<noteq> NilIface then assert_p ppInterface else Inr 0) (\<lambda>pp.
       if local \<and> pp \<noteq> 0 then
         (if next then
            (let oldnext = runnext (procs s pp);
                 (swapped, s1) = runnext_cas pp oldnext gp s
             in if \<not> swapped then runqput pp gp False s1
                else if oldnext \<noteq> 0 then runqput pp oldnext False s1
                else Inr s1)
          else runqput pp gp False s)
       else
         bindR (lock s) (\<lambda>s1.
         bindR (globrunqput gp s1) unlock)))"

text \<open>
  \<^verbatim>\<open>NextTask\<close>, statement by statement: the two type assertions, the trace reader, the GC
  worker, the global queue under \<^verbatim>\<open>CheckGlobalQueue\<close>, the local queue, the global queue
  again, stealing, and the final \<^verbatim>\<open>return nil, false, false\<close>. Every \<^verbatim>\<open>!= nil\<close> after the
  GC worker compares an interface value with nil.
\<close>

definition schedulerImpl_NextTask ::
  "iface \<Rightarrow> iface \<Rightarrow> world \<Rightarrow> ((iface \<times> bool \<times> bool) \<times> world) res" where
  "schedulerImpl_NextTask ppInterface mpInterface s =
     bindR (assert_p ppInterface) (\<lambda>pp.
     bindR (assert_m mpInterface) (\<lambda>mp.
     bindR (if trace_on s
            then (let (gp, s1) = traceReader s in
                  if gp \<noteq> 0
                  then bindR (casgstatus gp Gwaiting Grunnable s1) (\<lambda>s2.
                         Inr (Some gp,
                              if trace_ok s2 then s2\<lparr>trace_log := trace_log s2 @ [gp]\<rparr> else s2))
                  else Inr (None, s1))
            else Inr (None, s)) (\<lambda>(traced, sa).
     case traced of Some gp \<Rightarrow> Inr ((PtrG gp, False, True), sa) | None \<Rightarrow>
     (let (worker, sb) = (if gcBlackenEnabled sa \<noteq> 0
                          then findRunnableGCWorker pp (nanotime sa) sa else (0, sa))
      in if worker \<noteq> 0 then Inr ((PtrG worker, False, True), sb) else
     bindR (schedulerImpl_CheckGlobalQueue (PtrP pp) sb) (\<lambda>fair.
     bindR (if fair then schedulerImpl_GetFromGlobalQueue (PtrP pp) sb
            else Inr (NilIface, sb)) (\<lambda>(gp1, sc).
     if fair \<and> gp1 \<noteq> NilIface then Inr ((gp1, False, False), sc) else
     bindR (schedulerImpl_GetFromLocalQueue (PtrP pp) sc) (\<lambda>((gp2, inheritTime), sd).
     if gp2 \<noteq> NilIface then Inr ((gp2, inheritTime, False), sd) else
     bindR (schedulerImpl_GetFromGlobalQueue (PtrP pp) sd) (\<lambda>(gp3, se).
     if gp3 \<noteq> NilIface then Inr ((gp3, False, False), se) else
     bindR (schedulerImpl_StealWork (PtrP pp) (PtrM mp) (nanotime se) se)
       (\<lambda>((gp4, inheritTime4, tnow, pollUntil, newWork), sf).
     if gp4 \<noteq> NilIface then Inr ((gp4, inheritTime4, False), sf)
     else Inr ((NilIface, False, False), sf))))))))))"

section \<open>The experimental schedulers\<close>

text \<open>
  \<^verbatim>\<open>priorityScheduler\<close>, \<^verbatim>\<open>fifoScheduler\<close> and \<^verbatim>\<open>workStealingScheduler\<close> embed
  \<^verbatim>\<open>schedulerImpl\<close>. A method they do not declare is the promoted method of the embedded
  value: its receiver is the embedded \<^verbatim>\<open>schedulerImpl\<close>, so the calls it makes on its
  receiver are calls of \<^verbatim>\<open>schedulerImpl\<close>'s methods.
\<close>

definition priorityScheduler_GetFromLocalQueue ::
  "iface \<Rightarrow> world \<Rightarrow> ((iface \<times> bool) \<times> world) res" where
  "priorityScheduler_GetFromLocalQueue ppInterface s =
     schedulerImpl_GetFromLocalQueue ppInterface s"

datatype scheduler = SchedulerImpl | PriorityScheduler | FifoScheduler | WorkStealingScheduler

text \<open>The method sets of the four implementations of the interface \<^verbatim>\<open>Scheduler\<close>.\<close>

fun Scheduler_CheckGlobalQueue :: "scheduler \<Rightarrow> iface \<Rightarrow> world \<Rightarrow> bool res" where
  "Scheduler_CheckGlobalQueue SchedulerImpl = schedulerImpl_CheckGlobalQueue"
| "Scheduler_CheckGlobalQueue PriorityScheduler = priorityScheduler_CheckGlobalQueue"
| "Scheduler_CheckGlobalQueue FifoScheduler = fifoScheduler_CheckGlobalQueue"
| "Scheduler_CheckGlobalQueue WorkStealingScheduler = workStealingScheduler_CheckGlobalQueue"

fun Scheduler_GetFromLocalQueue ::
  "scheduler \<Rightarrow> iface \<Rightarrow> world \<Rightarrow> ((iface \<times> bool) \<times> world) res" where
  "Scheduler_GetFromLocalQueue PriorityScheduler = priorityScheduler_GetFromLocalQueue"
| "Scheduler_GetFromLocalQueue impl = schedulerImpl_GetFromLocalQueue"

fun Scheduler_GetFromGlobalQueue :: "scheduler \<Rightarrow> iface \<Rightarrow> world \<Rightarrow> (iface \<times> world) res" where
  "Scheduler_GetFromGlobalQueue impl = schedulerImpl_GetFromGlobalQueue"

fun Scheduler_StealWork ::
  "scheduler \<Rightarrow> iface \<Rightarrow> iface \<Rightarrow> 64 word \<Rightarrow> world
     \<Rightarrow> ((iface \<times> bool \<times> 64 word \<times> 64 word \<times> bool) \<times> world) res" where
  "Scheduler_StealWork impl = schedulerImpl_StealWork"

fun Scheduler_QueueTask ::
  "scheduler \<Rightarrow> iface \<Rightarrow> iface \<Rightarrow> bool \<Rightarrow> bool \<Rightarrow> world \<Rightarrow> world res" where
  "Scheduler_QueueTask impl = schedulerImpl_QueueTask"

fun Scheduler_NextTask ::
  "scheduler \<Rightarrow> iface \<Rightarrow> iface \<Rightarrow> world \<Rightarrow> ((iface \<times> bool \<times> bool) \<times> world) res" where
  "Scheduler_NextTask impl = schedulerImpl_NextTask"

text \<open>The task an interface result carries: none for the nil interface and for a boxed nil pointer.\<close>

definition tasks_of :: "iface \<Rightarrow> gptr list" where
  "tasks_of x = (case x of PtrG gp \<Rightarrow> (if gp = 0 then [] else [gp]) | _ \<Rightarrow> [])"

section \<open>Concrete states\<close>

text \<open>
  An idle processor, and a state in which every processor is idle, the global queue is
  empty, the lock is free, and neither the tracer nor the garbage collector has work.
  The calling thread runs on processor 1.
\<close>

definition p_idle :: p where
  "p_idle = \<lparr>schedtick = 1, runnext = 0, runq = []\<rparr>"

definition world_idle :: world where
  "world_idle =
     \<lparr>procs = (\<lambda>a. p_idle), sched_runq = [], sched_lock = False, curp = 1,
      gstatus = (\<lambda>g. Grunnable), trace_on = False, trace_reader = 0, trace_ok = False,
      trace_log = [], gcBlackenEnabled = 0, gc_worker = 0, clock = 0, steal_order = [1, 2]\<rparr>"

text \<open>Task 7 sits in the global queue and nowhere else; no tick of processor 1 is due.\<close>

definition world_global_only :: world where
  "world_global_only = world_idle\<lparr>sched_runq := [7]\<rparr>"

text \<open>
  Processor 1 is idle with tick 1, processor 2 holds the tasks 10 and 11 in its ring, and
  task 20 sits in the global queue.
\<close>

definition world_stealable :: world where
  "world_stealable =
     world_idle\<lparr>procs := (\<lambda>a. p_idle)(2 := \<lparr>schedtick = 1, runnext = 0, runq = [10, 11]\<rparr>),
                sched_runq := [20], steal_order := [2]\<rparr>"

text \<open>Processor 1 three ticks before its \<^verbatim>\<open>schedtick\<close> wraps, the global queue not empty.\<close>

definition world_wrapping :: world where
  "world_wrapping =
     world_idle\<lparr>procs := (\<lambda>a. p_idle)(1 := \<lparr>schedtick = 4294967293, runnext = 0, runq = []\<rparr>),
                sched_runq := [7]\<rparr>"

text \<open>
  Processor 1 at tick 31 with task 5 in its ring, and task 20 in the global queue: a tick
  at which the check of \<^verbatim>\<open>priorityScheduler\<close> holds and that of the default does not.
\<close>

definition world_tick_31 :: world where
  "world_tick_31 =
     world_idle\<lparr>procs := (\<lambda>a. p_idle)(1 := \<lparr>schedtick = 31, runnext = 0, runq = [5]\<rparr>),
                sched_runq := [20]\<rparr>"

text \<open>The global queue holds the tasks 5, 6 and 7.\<close>

definition world_three_global :: world where
  "world_three_global = world_idle\<lparr>sched_runq := [5, 6, 7]\<rparr>"

section \<open>Auxiliary facts\<close>

lemmas world_defs = world_idle_def p_idle_def world_global_only_def world_stealable_def
  world_wrapping_def world_three_global_def world_tick_31_def

lemma word32_mod_zero_iff: "((w::32 word) mod n = 0) = (unat w mod unat n = 0)"
  by (metis unat_eq_zero unat_mod)

lemma next_multiple: "((n::nat) + (61 - n mod 61) mod 61) mod 61 = 0"
proof -
  define r where "r = n mod 61"
  have r: "r < 61" by (simp add: r_def)
  have "(n + (61 - r) mod 61) mod 61 = (r + (61 - r) mod 61) mod 61"
    unfolding r_def by (simp add: mod_add_left_eq)
  also have "\<dots> = 0"
  proof (cases "r = 0")
    case True
    then show ?thesis by simp
  next
    case False
    with r have "(61 - r) mod 61 = 61 - r" by simp
    with r show ?thesis by simp
  qed
  finally show ?thesis by (simp add: r_def)
qed

lemma tick_window: "\<exists>k<61. ((t::32 word) + of_nat k) mod 61 = 0"
proof (cases "unat t + 60 < 2 ^ 32")
  case True
  define k where "k = (61 - unat t mod 61) mod 61"
  have k: "k < 61" by (simp add: k_def)
  have "unat (t + of_nat k) = unat t + k"
    using True k by (simp add: unat_word_ariths unat_of_nat) 
  moreover have "(unat t + k) mod 61 = 0"
    unfolding k_def by (rule next_multiple)
  ultimately have "(t + of_nat k) mod 61 = 0"
    by (simp add: word32_mod_zero_iff)
  with k show ?thesis by (intro exI [of _ k] conjI)
next
  case False
  define k where "k = 2 ^ 32 - unat t"
  have lt: "unat t < 2 ^ 32" using unsigned_less [of t] by simp
  have k: "k < 61" using False lt by (simp add: k_def)
  have "unat t + k = 2 ^ 32" using lt by (simp add: k_def)
  then have "(of_nat (unat t + k) :: 32 word) = 0" by simp
  then have "t + of_nat k = 0" by simp
  then have "(t + of_nat k) mod 61 = 0" by simp
  with k show ?thesis by (intro exI [of _ k] conjI)
qed

lemma mset_take_drop: "mset (take n xs) + mset (drop n xs) = mset xs"
  by (metis append_take_drop_id mset_append)



lemma globrunqput_each_eq:
  "sched_lock s \<Longrightarrow> globrunqput_each q s = Inr (s\<lparr>sched_runq := sched_runq s @ q\<rparr>)"
  by (induction q arbitrary: s) (simp_all add: globrunqput_def bindR_def)





lemma GetFromGlobalQueue_result:
  assumes "\<not> sched_lock s" "pp \<noteq> 0" "sched_runq s = gp # rest" "gp \<noteq> 0"
  defines "n \<equiv> runq_len div 2 - 1"
  defines "q \<equiv> take (runq_len div 2 - 1) rest"
  defines "r \<equiv> runq (procs s pp)"
  shows "schedulerImpl_GetFromGlobalQueue (PtrP pp) s =
     Inr (PtrG gp,
          s\<lparr>procs := (procs s)(pp := (procs s pp)\<lparr>runq := r @ take (runq_len - length r) q\<rparr>),
            sched_runq := drop n rest @ drop (runq_len - length r) q,
            sched_lock := False\<rparr>)"
proof (cases "q = []")
  case True
  with assms(1-4) show ?thesis
    by (simp add: schedulerImpl_GetFromGlobalQueue_def assert_p_def bindR_def runq_empty_def
        lock_def unlock_def globrunqgetbatch_def runqputbatch_def Let_def n_def q_def r_def
        del: take_eq_Nil take_eq_Nil2 drop_eq_Nil drop_eq_Nil2 take_take)
next
  case False
  note qne = this
  show ?thesis
  proof (cases "drop (runq_len - length r) q = []")
    case True
    with qne assms(1-4) show ?thesis
      by (simp add: schedulerImpl_GetFromGlobalQueue_def assert_p_def bindR_def runq_empty_def
          lock_def unlock_def globrunqgetbatch_def runqputbatch_def Let_def n_def q_def r_def
        del: take_eq_Nil take_eq_Nil2 drop_eq_Nil drop_eq_Nil2 take_take)
  next
    case False
    with qne assms(1-4) show ?thesis
      by (simp add: schedulerImpl_GetFromGlobalQueue_def assert_p_def bindR_def runq_empty_def
          lock_def unlock_def globrunqgetbatch_def runqputbatch_def Let_def n_def q_def r_def
          globrunqput_each_eq del: take_eq_Nil take_eq_Nil2 drop_eq_Nil drop_eq_Nil2 take_take)
  qed
qed


text \<open>
  With no injected work and no tick due, \<^verbatim>\<open>NextTask\<close> on a processor with an empty local
  queue returns at the local-queue step: \<^verbatim>\<open>GetFromLocalQueue\<close> hands back the nil \<^verbatim>\<open>*g\<close>
  of \<^verbatim>\<open>runqget\<close> boxed in an interface, and the test \<^verbatim>\<open>gpInterface != nil\<close> holds for it.
  Neither the global queue nor the other processors are looked at.
\<close>

lemma NextTask_stops_at_local_queue:
  assumes "pp \<noteq> 0" "\<not> trace_on s" "gcBlackenEnabled s = 0"
    and "schedtick (procs s pp) mod 61 \<noteq> 0"
    and "runnext (procs s pp) = 0" "runq (procs s pp) = []"
  shows "schedulerImpl_NextTask (PtrP pp) (PtrM mp) s = Inr ((PtrG 0, False, False), s)"
  using assms
  by (simp add: schedulerImpl_NextTask_def schedulerImpl_CheckGlobalQueue_def
      schedulerImpl_GetFromLocalQueue_def runqget_def assert_p_def assert_m_def bindR_def)

text \<open>
  On a due tick, with no injected work, the lock free and a task at the head of the global
  queue, \<^verbatim>\<open>NextTask\<close> does take from the global queue: it returns the head, whatever the
  local queue holds.
\<close>

lemma NextTask_takes_global_on_due_tick:
  assumes "pp \<noteq> 0" "\<not> trace_on s" "gcBlackenEnabled s = 0" "\<not> sched_lock s"
    and "schedtick (procs s pp) mod 61 = 0"
    and "sched_runq s = gp # rest" "gp \<noteq> 0"
  shows "\<exists>s'. schedulerImpl_NextTask (PtrP pp) (PtrM mp) s = Inr ((PtrG gp, False, False), s')"
  using assms GetFromGlobalQueue_result [OF assms(4) assms(1) assms(6) assms(7)]
  by (simp add: schedulerImpl_NextTask_def schedulerImpl_CheckGlobalQueue_def runq_empty_def
      assert_p_def assert_m_def bindR_def)

section \<open>The order of the work sources in \<^verbatim>\<open>NextTask\<close>\<close>

text \<open>
  Claim C1. The default \<^verbatim>\<open>NextTask\<close> is to consult, in this order, the trace reader, the GC
  worker, the global queue if \<^verbatim>\<open>CheckGlobalQueue\<close> holds, the local queue, the global queue
  again when the local queue was empty, and work stealing, and to return the first task
  found; so a task that sits only in the global queue is returned also when no tick is
  due. The code does not do this. In the state \<open>world_global_only\<close> the tracer and the
  collector are off, processor 1 is idle with tick 1, and task 7 is the only entry of the
  global queue. \<^verbatim>\<open>NextTask\<close> returns at the local-queue step with a boxed nil pointer and
  leaves task 7 in the global queue.
\<close>

theorem NextTask_strands_global_task:
  "schedulerImpl_CheckGlobalQueue (PtrP 1) world_global_only = Inr False \<and>
   runnext (procs world_global_only 1) = 0 \<and> runq (procs world_global_only 1) = [] \<and>
   sched_runq world_global_only = [7] \<and>
   schedulerImpl_NextTask (PtrP 1) (PtrM 1) world_global_only =
     Inr ((PtrG 0, False, False), world_global_only)"
  by (simp add: schedulerImpl_NextTask_def schedulerImpl_CheckGlobalQueue_def
      schedulerImpl_GetFromLocalQueue_def runqget_def assert_p_def assert_m_def bindR_def
      runq_empty_def world_defs)

section \<open>The fairness check of the default scheduler\<close>

text \<open>
  Claim C2. \<^verbatim>\<open>CheckGlobalQueue\<close> of the default scheduler is true exactly when the
  processor's \<^verbatim>\<open>schedtick\<close> is a multiple of 61 and the emptiness check of the global queue
  reports it non-empty. Hence, while the global queue is non-empty, among any 61
  consecutive ticks of a processor there is one at which the check holds, also across the
  wrap-around of the 32-bit counter.
\<close>

theorem CheckGlobalQueue_every_61:
  assumes "pp \<noteq> 0"
  shows "schedulerImpl_CheckGlobalQueue (PtrP pp) s =
           Inr (unat (schedtick (procs s pp)) mod 61 = 0 \<and> \<not> runq_empty s) \<and>
         (\<not> runq_empty s \<longrightarrow>
            (\<exists>k<61. schedulerImpl_CheckGlobalQueue (PtrP pp) (tick_by k pp s) = Inr True))"
proof (intro conjI impI)
  from assms show "schedulerImpl_CheckGlobalQueue (PtrP pp) s =
           Inr (unat (schedtick (procs s pp)) mod 61 = 0 \<and> \<not> runq_empty s)"
    by (simp add: schedulerImpl_CheckGlobalQueue_def assert_p_def bindR_def word32_mod_zero_iff)
next
  assume ne: "\<not> runq_empty s"
  obtain k where k: "k < 61" "(schedtick (procs s pp) + of_nat k) mod 61 = 0"
    using tick_window [of "schedtick (procs s pp)"] by (elim exE conjE) (rule that)
  with assms ne have "schedulerImpl_CheckGlobalQueue (PtrP pp) (tick_by k pp s) = Inr True"
    by (simp add: schedulerImpl_CheckGlobalQueue_def assert_p_def bindR_def tick_by_def
        runq_empty_def)
  with k(1) show "\<exists>k<61. schedulerImpl_CheckGlobalQueue (PtrP pp) (tick_by k pp s) = Inr True"
    by (intro exI [of _ k] conjI)
qed

theorem CheckGlobalQueue_every_61_witness:
  "(1::nat) \<noteq> 0 \<and> \<not> runq_empty world_wrapping \<and>
   schedulerImpl_CheckGlobalQueue (PtrP 1) world_wrapping = Inr False \<and>
   (\<exists>k<61. schedulerImpl_CheckGlobalQueue (PtrP 1) (tick_by k 1 world_wrapping) = Inr True)"
proof -
  have h: "(1::nat) \<noteq> 0" by simp
  have ne: "\<not> runq_empty world_wrapping" by (simp add: runq_empty_def world_defs)
  have tk: "unat (schedtick (procs world_wrapping 1)) mod 61 \<noteq> 0"
    by (simp add: world_defs)
  note a = CheckGlobalQueue_every_61 [OF h, of world_wrapping]
  have f: "schedulerImpl_CheckGlobalQueue (PtrP 1) world_wrapping = Inr False"
    using a [THEN conjunct1] tk by simp
  have g: "\<exists>k<61. schedulerImpl_CheckGlobalQueue (PtrP 1) (tick_by k 1 world_wrapping) = Inr True"
    using a [THEN conjunct2] ne by (rule mp)
  from h ne f g show ?thesis by (intro conjI)
qed

section \<open>Admission of tasks\<close>



text \<open>
  A task displaced from the run-next slot is never dropped: it goes to the tail of the ring,
  or, when the ring is full, to the global queue with the oldest half of the ring.
\<close>

lemma QueueTask_displaced_kept:
  assumes "pp \<noteq> 0" "\<not> sched_lock s" "runnext (procs s pp) = old" "old \<noteq> 0"
  shows "\<exists>s'. schedulerImpl_QueueTask (PtrG new) (PtrP pp) True True s = Inr s' \<and>
           runnext (procs s' pp) = new \<and>
           (if length (runq (procs s pp)) < runq_len
            then runq (procs s' pp) = runq (procs s pp) @ [old] \<and> sched_runq s' = sched_runq s
            else old \<in> set (sched_runq s'))"
  using assms
  by (simp add: schedulerImpl_QueueTask_def runqput_def assert_g_def assert_p_def
        bindR_def runnext_cas_def runq_append_def lock_def unlock_def globrunqputbatch_def Let_def)



section \<open>The experimental schedulers\<close>

text \<open>
  Claim C5. The three experimental schedulers differ from the default one in the cadence
  of \<^verbatim>\<open>CheckGlobalQueue\<close> only: the check of \<^verbatim>\<open>priorityScheduler\<close> holds exactly when the tick
  is a multiple of 31 and the global queue is reported non-empty, that of \<^verbatim>\<open>fifoScheduler\<close>
  with 127, that of \<^verbatim>\<open>workStealingScheduler\<close> with 101; every other method of every
  implementation is the default one.
\<close>

theorem experimental_CheckGlobalQueue:
  assumes "pp \<noteq> 0"
  shows "Scheduler_CheckGlobalQueue PriorityScheduler (PtrP pp) s =
           Inr (unat (schedtick (procs s pp)) mod 31 = 0 \<and> \<not> runq_empty s) \<and>
         Scheduler_CheckGlobalQueue FifoScheduler (PtrP pp) s =
           Inr (unat (schedtick (procs s pp)) mod 127 = 0 \<and> \<not> runq_empty s) \<and>
         Scheduler_CheckGlobalQueue WorkStealingScheduler (PtrP pp) s =
           Inr (unat (schedtick (procs s pp)) mod 101 = 0 \<and> \<not> runq_empty s) \<and>
         (\<forall>impl. Scheduler_NextTask impl = Scheduler_NextTask SchedulerImpl \<and>
                 Scheduler_QueueTask impl = Scheduler_QueueTask SchedulerImpl \<and>
                 Scheduler_StealWork impl = Scheduler_StealWork SchedulerImpl \<and>
                 Scheduler_GetFromLocalQueue impl = Scheduler_GetFromLocalQueue SchedulerImpl \<and>
                 Scheduler_GetFromGlobalQueue impl = Scheduler_GetFromGlobalQueue SchedulerImpl)"
proof -
  have loc: "Scheduler_GetFromLocalQueue impl = schedulerImpl_GetFromLocalQueue" for impl
    by (cases impl) (simp_all add: fun_eq_iff priorityScheduler_GetFromLocalQueue_def)
  have others: "\<forall>impl. Scheduler_NextTask impl = Scheduler_NextTask SchedulerImpl \<and>
                 Scheduler_QueueTask impl = Scheduler_QueueTask SchedulerImpl \<and>
                 Scheduler_StealWork impl = Scheduler_StealWork SchedulerImpl \<and>
                 Scheduler_GetFromLocalQueue impl = Scheduler_GetFromLocalQueue SchedulerImpl \<and>
                 Scheduler_GetFromGlobalQueue impl = Scheduler_GetFromGlobalQueue SchedulerImpl"
    by (simp add: loc)
  from assms have checks:
    "Scheduler_CheckGlobalQueue PriorityScheduler (PtrP pp) s =
           Inr (unat (schedtick (procs s pp)) mod 31 = 0 \<and> \<not> runq_empty s)"
    "Scheduler_CheckGlobalQueue FifoScheduler (PtrP pp) s =
           Inr (unat (schedtick (procs s pp)) mod 127 = 0 \<and> \<not> runq_empty s)"
    "Scheduler_CheckGlobalQueue WorkStealingScheduler (PtrP pp) s =
           Inr (unat (schedtick (procs s pp)) mod 101 = 0 \<and> \<not> runq_empty s)"
    by (simp_all add: priorityScheduler_CheckGlobalQueue_def fifoScheduler_CheckGlobalQueue_def
        workStealingScheduler_CheckGlobalQueue_def assert_p_def bindR_def word32_mod_zero_iff)
  from checks others show ?thesis by (intro conjI)
qed

theorem experimental_CheckGlobalQueue_witness:
  "(1::nat) \<noteq> 0 \<and>
   Scheduler_CheckGlobalQueue PriorityScheduler (PtrP 1) world_global_only = Inr False \<and>
   Scheduler_CheckGlobalQueue FifoScheduler (PtrP 1) world_global_only = Inr False \<and>
   Scheduler_CheckGlobalQueue WorkStealingScheduler (PtrP 1) world_global_only = Inr False \<and>
   Scheduler_CheckGlobalQueue PriorityScheduler (PtrP 1) (tick_by 30 1 world_global_only) = Inr True \<and>
   Scheduler_CheckGlobalQueue FifoScheduler (PtrP 1) (tick_by 126 1 world_global_only) = Inr True \<and>
   Scheduler_CheckGlobalQueue WorkStealingScheduler (PtrP 1) (tick_by 100 1 world_global_only) = Inr True \<and>
   Scheduler_CheckGlobalQueue PriorityScheduler (PtrP 1) (tick_by 60 1 world_global_only) = Inr False"
proof -
  have h: "(1::nat) \<noteq> 0" by simp
  note a = experimental_CheckGlobalQueue [OF h, of world_global_only]
       and b = experimental_CheckGlobalQueue [OF h, of "tick_by 30 1 world_global_only"]
       and c = experimental_CheckGlobalQueue [OF h, of "tick_by 126 1 world_global_only"]
       and d = experimental_CheckGlobalQueue [OF h, of "tick_by 100 1 world_global_only"]
       and e = experimental_CheckGlobalQueue [OF h, of "tick_by 60 1 world_global_only"]
  have "\<not> runq_empty world_global_only"
    by (simp add: world_defs runq_empty_def)
  moreover have "schedtick (procs world_global_only 1) = 1"
    by (simp add: world_defs)
  ultimately show ?thesis
    using a [THEN conjunct1] a [THEN conjunct2, THEN conjunct1]
      a [THEN conjunct2, THEN conjunct2, THEN conjunct1]
      b [THEN conjunct1] c [THEN conjunct2, THEN conjunct1]
      d [THEN conjunct2, THEN conjunct2, THEN conjunct1] e [THEN conjunct1]
    by (simp add: tick_by_def runq_empty_def)
qed




section \<open>The batch pop of \<^verbatim>\<open>GetFromGlobalQueue\<close>\<close>

text \<open>
  Claim C7. \<^verbatim>\<open>GetFromGlobalQueue\<close> loses no task. Called with the lock free, on a
  processor that exists and a global queue of real tasks, it returns; it takes at most
  half the capacity of the local ring from the global queue; every task taken is the task
  returned, or in the ring of the processor, or back in the global queue, so the tasks of
  the global queue and the ring together with the task returned are the tasks that were
  in the global queue and the ring before. The run-next slot, the other processors and the
  lock are as before, and the result is the nil interface exactly when the global queue
  was empty.
\<close>

theorem GetFromGlobalQueue_preserves_tasks:
  assumes "\<not> sched_lock s" "pp \<noteq> 0" "0 \<notin> set (sched_runq s)"
  shows "\<exists>r s'. schedulerImpl_GetFromGlobalQueue (PtrP pp) s = Inr (r, s') \<and>
      mset (tasks_of r) + mset (sched_runq s') + mset (runq (procs s' pp))
        = mset (sched_runq s) + mset (runq (procs s pp)) \<and>
      runnext (procs s' pp) = runnext (procs s pp) \<and>
      (\<forall>v. v \<noteq> pp \<longrightarrow> procs s' v = procs s v) \<and>
      \<not> sched_lock s' \<and>
      length (sched_runq s) - length (sched_runq s') \<le> runq_len div 2 \<and>
      (r = NilIface \<longleftrightarrow> sched_runq s = [])"
proof (cases "sched_runq s")
  case Nil
  then show ?thesis
    using assms
    by (simp add: schedulerImpl_GetFromGlobalQueue_def assert_p_def bindR_def runq_empty_def
        tasks_of_def)
next
  case (Cons gp rest)
  with assms have gp: "gp \<noteq> 0" by auto
  define n where "n = runq_len div 2 - 1"
  define q where "q = take n rest"
  define r where "r = runq (procs s pp)"
  define room where "room = runq_len - length r"
  define s' where "s' = s\<lparr>procs := (procs s)(pp := (procs s pp)\<lparr>runq := r @ take room q\<rparr>),
            sched_runq := drop n rest @ drop room q, sched_lock := False\<rparr>"
  have res: "schedulerImpl_GetFromGlobalQueue (PtrP pp) s = Inr (PtrG gp, s')"
    using GetFromGlobalQueue_result [OF assms(1,2) Cons gp]
    by (simp add: s'_def n_def q_def r_def room_def)
  have q: "mset (take room q) + mset (drop room q) = mset q"
    by (rule mset_take_drop)
  have rest: "mset q + mset (drop n rest) = mset rest"
    unfolding q_def by (rule mset_take_drop)
  have m: "mset (tasks_of (PtrG gp)) + mset (sched_runq s') + mset (runq (procs s' pp))
        = mset (sched_runq s) + mset (runq (procs s pp))"
    using gp q rest by (simp add: tasks_of_def s'_def Cons r_def [symmetric] ac_simps)
  have len: "length (sched_runq s) - length (sched_runq s') \<le> runq_len div 2"
    by (simp add: s'_def Cons q_def n_def runq_len_def)
  show ?thesis
    using res m len Cons by (simp add: s'_def)
qed

theorem GetFromGlobalQueue_preserves_tasks_witness:
  "\<not> sched_lock world_three_global \<and> (1::nat) \<noteq> 0 \<and>
   0 \<notin> set (sched_runq world_three_global) \<and>
   (\<exists>r s'. schedulerImpl_GetFromGlobalQueue (PtrP 1) world_three_global = Inr (r, s') \<and>
      mset (tasks_of r) + mset (sched_runq s') + mset (runq (procs s' 1))
        = mset (sched_runq world_three_global) + mset (runq (procs world_three_global 1)) \<and>
      runnext (procs s' 1) = runnext (procs world_three_global 1) \<and>
      (\<forall>v. v \<noteq> 1 \<longrightarrow> procs s' v = procs world_three_global v) \<and>
      \<not> sched_lock s' \<and>
      length (sched_runq world_three_global) - length (sched_runq s') \<le> runq_len div 2 \<and>
      (r = NilIface \<longleftrightarrow> sched_runq world_three_global = []))"
proof -
  have h1: "\<not> sched_lock world_three_global" by (simp add: world_defs)
  have h2: "(1::nat) \<noteq> 0" by simp
  have h3: "0 \<notin> set (sched_runq world_three_global)" by (simp add: world_defs)
  from GetFromGlobalQueue_preserves_tasks [OF h1 h2 h3] h1 h2 h3 show ?thesis
    by (intro conjI)
qed

text \<open>
  In \<open>world_three_global\<close> the call returns task 5 and moves the tasks 6 and 7 into the
  ring of processor 1.
\<close>

lemma GetFromGlobalQueue_three:
  "map_sum id (\<lambda>(r, s'). (r, sched_runq s', runq (procs s' 1), sched_lock s'))
     (schedulerImpl_GetFromGlobalQueue (PtrP 1) world_three_global) =
   Inr (PtrG 5, [], [6, 7], False)"
  by (simp add: schedulerImpl_GetFromGlobalQueue_def assert_p_def bindR_def runq_empty_def
      lock_def unlock_def globrunqgetbatch_def runqputbatch_def runq_len_def world_defs)

section \<open>When there is no work\<close>

text \<open>
  Claim C9. When the probes, the global queue, the local queue and stealing all yield no
  task, \<^verbatim>\<open>NextTask\<close> is to return a nil task with both flags false, without blocking. In
  the state \<open>world_idle\<close> nothing has work. \<^verbatim>\<open>NextTask\<close> does return without blocking and
  with both flags false, but from the local-queue step and not from the final
  \<^verbatim>\<open>return nil, false, false\<close>: its first result is the nil \<^verbatim>\<open>*g\<close> boxed in an interface,
  which is not the nil interface, so the caller's comparison with nil does not see it.
\<close>

theorem NextTask_idle_returns_boxed_nil:
  "map_sum id fst (schedulerImpl_StealWork (PtrP 1) (PtrM 1) 0 world_idle) =
     Inr (PtrG 0, False, 0, 0, False) \<and>
   schedulerImpl_GetFromGlobalQueue (PtrP 1) world_idle = Inr (NilIface, world_idle) \<and>
   schedulerImpl_NextTask (PtrP 1) (PtrM 1) world_idle =
     Inr ((PtrG 0, False, False), world_idle) \<and>
   PtrG 0 \<noteq> NilIface"
  by (simp add: schedulerImpl_NextTask_def schedulerImpl_CheckGlobalQueue_def
      schedulerImpl_GetFromGlobalQueue_def schedulerImpl_StealWork_def stealWork_def
      schedulerImpl_GetFromLocalQueue_def runqget_def assert_p_def assert_m_def bindR_def
      runq_empty_def world_defs)

section \<open>Embedding and method promotion\<close>

text \<open>
  Claim C10. \<^verbatim>\<open>priorityScheduler\<close> and \<^verbatim>\<open>fifoScheduler\<close> behave as the default scheduler on
  every operation other than \<^verbatim>\<open>CheckGlobalQueue\<close>: their \<^verbatim>\<open>NextTask\<close>, \<^verbatim>\<open>QueueTask\<close>,
  \<^verbatim>\<open>StealWork\<close>, \<^verbatim>\<open>GetFromLocalQueue\<close> and \<^verbatim>\<open>GetFromGlobalQueue\<close> give the same result and
  the same state on every input, and \<^verbatim>\<open>priorityScheduler.GetFromLocalQueue\<close> is a
  delegation to the default method.
\<close>

theorem embedded_methods_are_default:
  "Scheduler_NextTask PriorityScheduler ppI mpI s = Scheduler_NextTask SchedulerImpl ppI mpI s \<and>
   Scheduler_QueueTask PriorityScheduler gpI ppI next local s =
     Scheduler_QueueTask SchedulerImpl gpI ppI next local s \<and>
   Scheduler_StealWork PriorityScheduler ppI mpI now s =
     Scheduler_StealWork SchedulerImpl ppI mpI now s \<and>
   Scheduler_GetFromLocalQueue PriorityScheduler ppI s =
     Scheduler_GetFromLocalQueue SchedulerImpl ppI s \<and>
   Scheduler_GetFromGlobalQueue PriorityScheduler ppI s =
     Scheduler_GetFromGlobalQueue SchedulerImpl ppI s \<and>
   Scheduler_NextTask FifoScheduler ppI mpI s = Scheduler_NextTask SchedulerImpl ppI mpI s \<and>
   Scheduler_QueueTask FifoScheduler gpI ppI next local s =
     Scheduler_QueueTask SchedulerImpl gpI ppI next local s \<and>
   Scheduler_StealWork FifoScheduler ppI mpI now s =
     Scheduler_StealWork SchedulerImpl ppI mpI now s \<and>
   Scheduler_GetFromLocalQueue FifoScheduler ppI s =
     Scheduler_GetFromLocalQueue SchedulerImpl ppI s \<and>
   Scheduler_GetFromGlobalQueue FifoScheduler ppI s =
     Scheduler_GetFromGlobalQueue SchedulerImpl ppI s \<and>
   priorityScheduler_GetFromLocalQueue ppI s = schedulerImpl_GetFromLocalQueue ppI s"
  by (simp add: priorityScheduler_GetFromLocalQueue_def)

text \<open>
  A consequence of the promotion: the \<^verbatim>\<open>NextTask\<close> of \<^verbatim>\<open>priorityScheduler\<close> calls
  \<^verbatim>\<open>CheckGlobalQueue\<close> on its receiver, the embedded default scheduler, and so keeps the
  cadence 61. In \<open>world_tick_31\<close> the check of \<^verbatim>\<open>priorityScheduler\<close> holds, and its
  \<^verbatim>\<open>NextTask\<close> still returns the local task 5 and leaves task 20 in the global queue.
\<close>

lemma priorityScheduler_NextTask_keeps_cadence_61:
  "Scheduler_CheckGlobalQueue PriorityScheduler (PtrP 1) world_tick_31 = Inr True \<and>
   Scheduler_CheckGlobalQueue SchedulerImpl (PtrP 1) world_tick_31 = Inr False \<and>
   map_sum id (\<lambda>(r, s'). (r, sched_runq s', runq (procs s' 1)))
     (Scheduler_NextTask PriorityScheduler (PtrP 1) (PtrM 1) world_tick_31) =
   Inr ((PtrG 5, False, False), [20], [])"
  by (simp add: schedulerImpl_NextTask_def schedulerImpl_CheckGlobalQueue_def
      priorityScheduler_CheckGlobalQueue_def schedulerImpl_GetFromLocalQueue_def runqget_def
      assert_p_def assert_m_def bindR_def runq_empty_def world_defs)

end
